theory Spec2Isabelle
  imports Complex_Main
begin

section \<open>Flow past a cylinder: the notebook as a sequence of framework calls\<close>

text \<open>
  The notebook \<^verbatim>\<open>notebooks/navier_stokes_cylinder.ipynb\<close> is a straight-line script
  around one \<^verbatim>\<open>for\<close> loop. Every numerical operation (meshing, assembly, applying
  a boundary condition, solving, writing a file) is a call into the finite-element
  framework. The embedding keeps the script's own data (geometry, boundary conditions,
  parameters), its control flow (the loop, the output test) and the order and the
  arguments of the framework calls it makes; what a call computes inside the framework
  is not modelled. Cells are numbered as the notebook numbers its code cells (the
  execution count), 1 to 12.
\<close>

subsection \<open>Geometry (code cell 2 of the notebook: \<^verbatim>\<open>channel\<close>, \<^verbatim>\<open>cylinder\<close>, \<^verbatim>\<open>domain\<close>)\<close>

text \<open>
  Decimal literals of the source are kept as the exact decimals that are written
  (\<^verbatim>\<open>2.2\<close> is \<open>22/10\<close>). The mesher's operators \<^verbatim>\<open>+\<close>, \<^verbatim>\<open>*\<close> and \<^verbatim>\<open>-\<close> build
  a union, an intersection and a difference node.
\<close>

datatype point = Point rat rat

datatype csg =
    Rectangle point point
  | Circle point rat nat
  | CSGUnion csg csg
  | CSGIntersection csg csg
  | CSGDifference csg csg

definition channel :: csg where
  "channel = Rectangle (Point 0 0) (Point 2.2 0.41)"

definition cylinder :: csg where
  "cylinder = Circle (Point 0.2 0.2) 0.05 16"

definition domain :: csg where
  "domain = CSGDifference channel cylinder"

primrec primitives :: "csg \<Rightarrow> csg list" where
  "primitives (Rectangle p q) = [Rectangle p q]"
| "primitives (Circle c r n) = [Circle c r n]"
| "primitives (CSGUnion a b) = primitives a @ primitives b"
| "primitives (CSGIntersection a b) = primitives a @ primitives b"
| "primitives (CSGDifference a b) = primitives a @ primitives b"

primrec unions :: "csg \<Rightarrow> nat" where
  "unions (Rectangle p q) = 0"
| "unions (Circle c r n) = 0"
| "unions (CSGUnion a b) = Suc (unions a + unions b)"
| "unions (CSGIntersection a b) = unions a + unions b"
| "unions (CSGDifference a b) = unions a + unions b"

primrec intersections :: "csg \<Rightarrow> nat" where
  "intersections (Rectangle p q) = 0"
| "intersections (Circle c r n) = 0"
| "intersections (CSGUnion a b) = intersections a + intersections b"
| "intersections (CSGIntersection a b) = Suc (intersections a + intersections b)"
| "intersections (CSGDifference a b) = intersections a + intersections b"

primrec differences :: "csg \<Rightarrow> nat" where
  "differences (Rectangle p q) = 0"
| "differences (Circle c r n) = 0"
| "differences (CSGUnion a b) = differences a + differences b"
| "differences (CSGIntersection a b) = differences a + differences b"
| "differences (CSGDifference a b) = Suc (differences a + differences b)"

subsection \<open>Mesh and function spaces (code cells 3 and 4)\<close>

datatype mesh = Generate_mesh csg nat

definition mesh :: mesh where
  "mesh = Generate_mesh domain 64"

datatype fspace =
    VectorFunctionSpace mesh string nat
  | FunctionSpace mesh string nat

definition V :: fspace where
  "V = VectorFunctionSpace mesh ''P'' 2"

definition Q :: fspace where
  "Q = FunctionSpace mesh ''P'' 1"

subsection \<open>Boundary conditions (code cells 5 and 6)\<close>

text \<open>
  The boundary predicates and the inflow profile are strings of the framework's
  expression language in the source, and stay strings here. Cell 5 rebinds the name
  \<^verbatim>\<open>cylinder\<close> to a predicate string, after \<^verbatim>\<open>domain\<close> was built from the circle;
  the string is called \<open>cylinder'\<close>.
\<close>

definition inflow :: string where
  "inflow = ''near(x[0], 0)''"

definition outflow :: string where
  "outflow = ''near(x[0], 2.2)''"

definition walls :: string where
  "walls = ''near(x[1], 0) || near(x[1], 0.41)''"

definition cylinder' :: string where
  "cylinder' = ''on_boundary && x[0]>0.1 && x[0]<0.3 && x[1]>0.1 && x[1]<0.3''"

definition inflow_profile :: "string list" where
  "inflow_profile = [''4.0*1.5*x[1]*(0.41 - x[1]) / pow(0.41, 2)'', ''0'']"

datatype constant_arg = Scalar rat | Vector "rat list"

datatype bvalue =
    Expression "string list" nat
  | Constant constant_arg

datatype dirichlet_bc = DirichletBC fspace bvalue string

definition bcu_inflow :: dirichlet_bc where
  "bcu_inflow = DirichletBC V (Expression inflow_profile 2) inflow"

definition bcu_walls :: dirichlet_bc where
  "bcu_walls = DirichletBC V (Constant (Vector [0, 0])) walls"

definition bcu_cylinder :: dirichlet_bc where
  "bcu_cylinder = DirichletBC V (Constant (Vector [0, 0])) cylinder'"

definition bcp_outflow :: dirichlet_bc where
  "bcp_outflow = DirichletBC Q (Constant (Scalar 0)) outflow"

definition bcu :: "dirichlet_bc list" where
  "bcu = [bcu_inflow, bcu_walls, bcu_cylinder]"

definition bcp :: "dirichlet_bc list" where
  "bcp = [bcp_outflow]"

subsection \<open>Parameters (code cell 7)\<close>

text \<open>
  \<^verbatim>\<open>T\<close> and \<^verbatim>\<open>dt\<close> are Python floats and the time \<^verbatim>\<open>t\<close> is a running float sum.
  Floating-point rounding is not interpreted: the float type is a type variable \<open>'f\<close>
  and its operations are taken as parameters, \<open>fl\<close> for the float denoted by a literal
  or converted from an int, \<open>fadd\<close> for \<^verbatim>\<open>+\<close> and \<open>fdiv\<close> for \<^verbatim>\<open>/\<close>. Nothing is
  assumed about them, so what is proved holds for IEEE doubles as for exact arithmetic.
\<close>

record 'f float_ops =
  fl :: "rat \<Rightarrow> 'f"
  fadd :: "'f \<Rightarrow> 'f \<Rightarrow> 'f"
  fdiv :: "'f \<Rightarrow> 'f \<Rightarrow> 'f"

definition exact_ops :: "rat float_ops" where
  "exact_ops = \<lparr>fl = (\<lambda>x. x), fadd = (\<lambda>x y. x + y), fdiv = (\<lambda>x y. x / y)\<rparr>"

definition T :: "'f float_ops \<Rightarrow> 'f" where
  "T ops = fl ops 5.0"

definition num_steps :: int where
  "num_steps = 5000"

subsection \<open>Framework calls\<close>

text \<open>
  The objects the script binds to names and hands to the framework. The source's
  \<^verbatim>\<open>u_\<close> and \<^verbatim>\<open>p_\<close> are written \<open>u_cur\<close> and \<open>p_cur\<close> (a name cannot end in an
  underscore here).
\<close>

datatype obj =
    A1 | A2 | A3
  | b1 | b2 | b3
  | u_cur | p_cur | u_k | p_k
  | xdmffile_u | xdmffile_p | vtkfile_u | vtkfile_p
  | timeseries_u | timeseries_p
  | progress

datatype form = a1 | a2 | a3 | L1 | L2 | L3

text \<open>
  One constructor for each kind of call with an effect:
  \<^item> \<open>Assemble f x\<close>: \<^verbatim>\<open>x = assemble(f)\<close>;
  \<^item> \<open>Apply bc x\<close>: \<^verbatim>\<open>bc.apply(x)\<close>;
  \<^item> \<open>Solve A x b m p\<close>: \<^verbatim>\<open>solve(A, x.vector(), b, m, p)\<close>, where \<open>m\<close> and \<open>p\<close> are
    the optional method and preconditioner arguments (\<open>None\<close> when the call leaves the
    argument out and the framework takes its default, a direct solver);
  \<^item> \<open>Print_u_max\<close>: \<^verbatim>\<open>print('u max:', u_.vector().array().max())\<close>;
  \<^item> \<open>XDMF_write f x tm\<close>: \<^verbatim>\<open>f.write(x, tm)\<close>; \<open>VTK_write f x tm\<close>: \<^verbatim>\<open>f << (x, tm)\<close>;
  \<^item> \<open>Assign x y\<close>: \<^verbatim>\<open>x.assign(y)\<close>;
  \<^item> \<open>Progress_update r\<close>: \<^verbatim>\<open>progress.update(r)\<close>;
  \<^item> \<open>XDMFFile x name\<close>, \<open>File x name\<close>, \<open>TimeSeries x name\<close>: \<^verbatim>\<open>x = XDMFFile(name)\<close>
    and so on;
  \<^item> \<open>TimeSeries_store s x tm\<close>: \<^verbatim>\<open>s.store(x.vector(), tm)\<close>, the framework's call
    that appends a snapshot to a time series. The notebook never makes this call; the
    constructor is there so that its absence from a trace is a statement;
  \<^item> \<open>Interactive\<close>: \<^verbatim>\<open>interactive()\<close>.
\<close>

datatype 'f call =
    Assemble form obj
  | Apply dirichlet_bc obj
  | Solve obj obj obj "string option" "string option"
  | Print_u_max
  | XDMF_write obj obj 'f
  | VTK_write obj obj 'f
  | Assign obj obj
  | Progress_update 'f
  | XDMFFile obj string
  | File obj string
  | TimeSeries obj string
  | TimeSeries_store obj obj 'f
  | Interactive

text \<open>
  The objects a call changes or binds. \<^verbatim>\<open>solve\<close> writes its second argument and
  reads the matrix and the right-hand side; the write calls change the file.
\<close>

fun modifies :: "'f call \<Rightarrow> obj list" where
  "modifies (Assemble f x) = [x]"
| "modifies (Apply bc x) = [x]"
| "modifies (Solve A x b m p) = [x]"
| "modifies Print_u_max = []"
| "modifies (XDMF_write f x tm) = [f]"
| "modifies (VTK_write f x tm) = [f]"
| "modifies (Assign x y) = [x]"
| "modifies (Progress_update r) = [progress]"
| "modifies (XDMFFile x name) = [x]"
| "modifies (File x name) = [x]"
| "modifies (TimeSeries x name) = [x]"
| "modifies (TimeSeries_store s x tm) = [s]"
| "modifies Interactive = []"

text \<open>The objects a call names at all, as an argument or as its target.\<close>

fun mentions :: "'f call \<Rightarrow> obj list" where
  "mentions (Assemble f x) = [x]"
| "mentions (Apply bc x) = [x]"
| "mentions (Solve A x b m p) = [A, x, b]"
| "mentions Print_u_max = [u_cur]"
| "mentions (XDMF_write f x tm) = [f, x]"
| "mentions (VTK_write f x tm) = [f, x]"
| "mentions (Assign x y) = [x, y]"
| "mentions (Progress_update r) = [progress]"
| "mentions (XDMFFile x name) = [x]"
| "mentions (File x name) = [x]"
| "mentions (TimeSeries x name) = [x]"
| "mentions (TimeSeries_store s x tm) = [s, x]"
| "mentions Interactive = []"

subsection \<open>State\<close>

text \<open>
  The loop assigns the global \<^verbatim>\<open>t\<close> and reads the global \<^verbatim>\<open>dt\<close>; both are fields of
  the state, so that what the loop does to them is a theorem. \<open>calls\<close> is the sequence
  of framework calls made so far, oldest first.
\<close>

record 'f state =
  t :: 'f
  dt :: 'f
  calls :: "'f call list"

definition emit :: "'f call \<Rightarrow> 'f state \<Rightarrow> 'f state" where
  "emit c st = st\<lparr>calls := calls st @ [c]\<rparr>"

subsection \<open>Before the loop (code cells 7, 8, 10 and 11)\<close>

text \<open>
  Cell 8 assembles the three matrices and applies the boundary conditions to the first
  two; the list comprehension \<^verbatim>\<open>[bc.apply(A1) for bc in bcu]\<close> runs through \<^verbatim>\<open>bcu\<close> in
  order. Cells 10 and 11 test \<^verbatim>\<open>'HDF5File' in globals()\<close>, which depends on how the
  framework was built: it is the parameter \<open>hdf5\<close>, the same in cells 10, 11 and 12.
  The other cells before the loop build objects (function spaces, trial and test
  functions, the forms) or act on nothing the loop uses (cell 3 plots the mesh and writes
  it to a file of its own, cell 9 creates the progress bar and sets the log level); they
  add no call to the trace.
\<close>

definition cell_8 :: "'f call list" where
  "cell_8 =
     [Assemble a1 A1] @ map (\<lambda>bc. Apply bc A1) bcu @
     [Assemble a2 A2] @ map (\<lambda>bc. Apply bc A2) bcp @
     [Assemble a3 A3]"

definition cell_10 :: "bool \<Rightarrow> 'f call list" where
  "cell_10 hdf5 =
     (if hdf5
      then [XDMFFile xdmffile_u ''navier_stokes_cylinder/velocity.xdmf'',
            XDMFFile xdmffile_p ''navier_stokes_cylinder/pressure.xdmf'']
      else [File vtkfile_u ''navier_stokes_cylinder/velocity.pvd'',
            File vtkfile_p ''navier_stokes_cylinder/pressure.pvd''])"

definition cell_11 :: "bool \<Rightarrow> 'f call list" where
  "cell_11 hdf5 =
     (if hdf5
      then [TimeSeries timeseries_u ''navier_stokes_cylinder/velocity_series'',
            TimeSeries timeseries_p ''navier_stokes_cylinder/pressure_series'']
      else [])"

text \<open>
  The state when the loop is entered: \<^verbatim>\<open>dt = T / num_steps\<close> from cell 7 (the int is
  converted to a float), \<^verbatim>\<open>t = 0\<close> from cell 12, and the calls of cells 8, 10 and 11.
\<close>

definition initial :: "'f float_ops \<Rightarrow> bool \<Rightarrow> 'f state" where
  "initial ops hdf5 =
     \<lparr>t = fl ops 0,
      dt = fdiv ops (T ops) (fl ops (of_int num_steps)),
      calls = cell_8 @ cell_10 hdf5 @ cell_11 hdf5\<rparr>"

subsection \<open>The time loop (code cell 12)\<close>

text \<open>
  \<^verbatim>\<open>out_interval = num_steps / 100\<close> is a true division of two ints and gives a float;
  \<^verbatim>\<open>k % out_interval\<close> converts \<^verbatim>\<open>k\<close> to a float and takes the float remainder. Both
  are exact on the values that occur (the quotient 50 and the remainders of integers
  below \<open>2^53\<close> are representable), so they are computed in the rationals. A zero
  divisor raises \<^verbatim>\<open>ZeroDivisionError\<close>.
\<close>

datatype error = ZeroDivisionError

definition out_interval :: rat where
  "out_interval = of_int num_steps / 100"

definition py_mod :: "rat \<Rightarrow> rat \<Rightarrow> error + rat" where
  "py_mod a b = (if b = 0 then Inl ZeroDivisionError else Inr (a - b * of_int \<lfloor>a / b\<rfloor>))"

text \<open>The body of the loop, statement by statement.\<close>

definition loop_body :: "'f float_ops \<Rightarrow> bool \<Rightarrow> int \<Rightarrow> 'f state \<Rightarrow> error + 'f state" where
  "loop_body ops hdf5 k st0 =
     (let st = st0\<lparr>t := fadd ops (t st0) (dt st0)\<rparr>;
          st = emit (Assemble L1 b1) st;
          st = fold (\<lambda>bc. emit (Apply bc b1)) bcu st;
          st = emit (Solve A1 u_cur b1 (Some ''bicgstab'') (Some ''ilu'')) st;
          st = emit (Assemble L2 b2) st;
          st = fold (\<lambda>bc. emit (Apply bc b2)) bcp st;
          st = emit (Solve A2 p_cur b2 (Some ''bicgstab'') (Some ''ilu'')) st;
          st = emit (Assemble L3 b3) st;
          st = emit (Solve A3 u_cur b3 (Some ''cg'') (Some ''sor'')) st
      in case py_mod (of_int k) out_interval of
           Inl e \<Rightarrow> Inl e
         | Inr r \<Rightarrow>
             (let st =
                (if r = 0 \<or> k = num_steps
                 then (let st = emit Print_u_max st in
                       if hdf5
                       then (let st = emit (XDMF_write xdmffile_u u_cur (t st)) st
                             in emit (XDMF_write xdmffile_p p_cur (t st)) st)
                       else (let st = emit (VTK_write vtkfile_u u_cur (t st)) st
                             in emit (VTK_write vtkfile_p p_cur (t st)) st))
                 else st);
                  st = emit (Assign u_k u_cur) st;
                  st = emit (Assign p_k p_cur) st;
                  st = emit (Progress_update (fdiv ops (t st) (T ops))) st
              in Inr st))"

text \<open>\<^verbatim>\<open>for k in ks\<close>: the body for each element in turn, stopping at an error.\<close>

fun time_loop :: "'f float_ops \<Rightarrow> bool \<Rightarrow> int list \<Rightarrow> 'f state \<Rightarrow> error + 'f state" where
  "time_loop ops hdf5 [] st = Inr st"
| "time_loop ops hdf5 (k # ks) st =
     (case loop_body ops hdf5 k st of
        Inl e \<Rightarrow> Inl e
      | Inr st' \<Rightarrow> time_loop ops hdf5 ks st')"

text \<open>
  The state after the first \<open>n\<close> iterations \<open>k = 1, ..., n\<close>. \<^verbatim>\<open>range(1, num_steps+1)\<close>
  is the list \<open>[1..num_steps]\<close>, so the loop ends in \<open>state_after ops hdf5 5000\<close>.
\<close>

definition state_after :: "'f float_ops \<Rightarrow> bool \<Rightarrow> nat \<Rightarrow> error + 'f state" where
  "state_after ops hdf5 n = time_loop ops hdf5 [1..int n] (initial ops hdf5)"

text \<open>The whole run: the loop over \<^verbatim>\<open>range(1, num_steps+1)\<close>, then \<^verbatim>\<open>interactive()\<close>.\<close>

definition notebook :: "'f float_ops \<Rightarrow> bool \<Rightarrow> error + 'f state" where
  "notebook ops hdf5 =
     (case time_loop ops hdf5 [1..num_steps] (initial ops hdf5) of
        Inl e \<Rightarrow> Inl e
      | Inr st \<Rightarrow> Inr (emit Interactive st))"

text \<open>The calls that iteration \<open>k\<close> adds when it starts in state \<open>st\<close>.\<close>

definition iteration_calls :: "'f float_ops \<Rightarrow> bool \<Rightarrow> int \<Rightarrow> 'f state \<Rightarrow> 'f call list" where
  "iteration_calls ops hdf5 k st =
     (case loop_body ops hdf5 k (st\<lparr>calls := []\<rparr>) of
        Inl e \<Rightarrow> []
      | Inr st' \<Rightarrow> calls st')"

subsection \<open>Reading a trace\<close>

text \<open>
  Projections of a sequence of calls, each keeping the order of the calls: the systems
  solved (matrix, right-hand side, unknown), the solver chosen for each system, the
  assemblies (form, target), the field writes (file, field, time) and the applications
  of boundary conditions (condition, target).
\<close>

fun solve_system :: "'f call \<Rightarrow> (obj \<times> obj \<times> obj) list" where
  "solve_system (Solve A x b m p) = [(A, b, x)]"
| "solve_system _ = []"

definition solve_systems :: "'f call list \<Rightarrow> (obj \<times> obj \<times> obj) list" where
  "solve_systems tr = concat (map solve_system tr)"

fun solver_choice :: "'f call \<Rightarrow> (obj \<times> string option \<times> string option) list" where
  "solver_choice (Solve A x b m p) = [(A, m, p)]"
| "solver_choice _ = []"

definition solver_choices :: "'f call list \<Rightarrow> (obj \<times> string option \<times> string option) list" where
  "solver_choices tr = concat (map solver_choice tr)"

fun assembly :: "'f call \<Rightarrow> (form \<times> obj) list" where
  "assembly (Assemble f x) = [(f, x)]"
| "assembly _ = []"

definition assemblies :: "'f call list \<Rightarrow> (form \<times> obj) list" where
  "assemblies tr = concat (map assembly tr)"

fun field_write :: "'f call \<Rightarrow> (obj \<times> obj \<times> 'f) list" where
  "field_write (XDMF_write f x tm) = [(f, x, tm)]"
| "field_write (VTK_write f x tm) = [(f, x, tm)]"
| "field_write _ = []"

definition field_writes :: "'f call list \<Rightarrow> (obj \<times> obj \<times> 'f) list" where
  "field_writes tr = concat (map field_write tr)"

fun bc_application :: "'f call \<Rightarrow> (dirichlet_bc \<times> obj) list" where
  "bc_application (Apply bc x) = [(bc, x)]"
| "bc_application _ = []"

definition bc_applications :: "'f call list \<Rightarrow> (dirichlet_bc \<times> obj) list" where
  "bc_applications tr = concat (map bc_application tr)"

text \<open>The calls of a trace that name, and that change, one of the objects \<open>xs\<close>.\<close>

definition about :: "obj list \<Rightarrow> 'f call list \<Rightarrow> 'f call list" where
  "about xs tr = filter (\<lambda>c. set (mentions c) \<inter> set xs \<noteq> {}) tr"

definition changes_to :: "obj list \<Rightarrow> 'f call list \<Rightarrow> 'f call list" where
  "changes_to xs tr = filter (\<lambda>c. set (modifies c) \<inter> set xs \<noteq> {}) tr"

text \<open>
  The sum of \<open>n\<close> copies of \<open>d\<close>, added one after the other to the initial 0 with the
  float addition, in the order in which the loop adds them.
\<close>

definition sum_copies :: "'f float_ops \<Rightarrow> nat \<Rightarrow> 'f \<Rightarrow> 'f" where
  "sum_copies ops n d = foldl (fadd ops) (fl ops 0) (replicate n d)"

text \<open>
  The three sub-problems of the splitting scheme, each a bilinear form (the left-hand
  side, assembled into a matrix) with a linear form (the right-hand side, assembled into
  a vector). A sub-problem is assembled within a trace when both of its forms are.
\<close>

definition subproblems :: "(form \<times> form) list" where
  "subproblems = [(a1, L1), (a2, L2), (a3, L3)]"

definition assembled_within :: "'f call list \<Rightarrow> form \<times> form \<Rightarrow> bool" where
  "assembled_within tr pb =
     (fst pb \<in> fst ` set (assemblies tr) \<and> snd pb \<in> fst ` set (assemblies tr))"

text \<open>The calls that assemble or solve, for the order of assembly and solution.\<close>

fun assemble_or_solve :: "'f call \<Rightarrow> bool" where
  "assemble_or_solve (Assemble f x) = True"
| "assemble_or_solve (Solve A x b m p) = True"
| "assemble_or_solve _ = False"

text \<open>
  The calls of iteration \<open>k\<close> written out as one list, \<open>tm\<close> being the time after the
  update; \<open>loop_body_eq\<close> below proves that the loop body adds exactly these.
\<close>

definition body_calls :: "'f float_ops \<Rightarrow> bool \<Rightarrow> int \<Rightarrow> 'f \<Rightarrow> 'f call list" where
  "body_calls ops hdf5 k tm =
     [Assemble L1 b1, Apply bcu_inflow b1, Apply bcu_walls b1, Apply bcu_cylinder b1,
      Solve A1 u_cur b1 (Some ''bicgstab'') (Some ''ilu''),
      Assemble L2 b2, Apply bcp_outflow b2,
      Solve A2 p_cur b2 (Some ''bicgstab'') (Some ''ilu''),
      Assemble L3 b3,
      Solve A3 u_cur b3 (Some ''cg'') (Some ''sor'')] @
     (if 50 dvd k \<or> k = 5000
      then Print_u_max #
           (if hdf5
            then [XDMF_write xdmffile_u u_cur tm, XDMF_write xdmffile_p p_cur tm]
            else [VTK_write vtkfile_u u_cur tm, VTK_write vtkfile_p p_cur tm])
      else []) @
     [Assign u_k u_cur, Assign p_k p_cur, Progress_update (fdiv ops tm (T ops))]"

section \<open>Properties\<close>

subsection \<open>The loop body and the loop\<close>

text \<open>
  The interval is 50, and the float remainder of an integer \<open>k\<close> by it is the integer
  remainder, so the division never fails and the output test is \<open>50 dvd k\<close> or
  \<open>k = 5000\<close>.
\<close>

lemma out_interval_50: "out_interval = 50"
  by (simp add: out_interval_def num_steps_def)

lemma py_mod_interval: "py_mod (of_int k) out_interval = Inr (of_int (k mod 50))"
proof -
  have "\<lfloor>rat_of_int k / rat_of_int 50\<rfloor> = k div 50"
    by (rule floor_divide_of_int_eq)
  then have fl: "\<lfloor>rat_of_int k / 50\<rfloor> = k div 50" by simp
  have "rat_of_int (k mod 50) = rat_of_int (k - 50 * (k div 50))"
    by (simp only: minus_mult_div_eq_mod)
  then have "rat_of_int k - 50 * rat_of_int (k div 50) = rat_of_int (k mod 50)"
    by simp
  then show ?thesis
    by (simp add: py_mod_def out_interval_50 fl)
qed

lemma loop_body_eq:
  "loop_body ops hdf5 k st =
     Inr (st\<lparr>t := fadd ops (t st) (dt st),
             calls := calls st @ body_calls ops hdf5 k (fadd ops (t st) (dt st))\<rparr>)"
  by (auto simp: loop_body_def py_mod_interval emit_def bcu_def bcp_def body_calls_def Let_def num_steps_def)

text \<open>
  Two iterations run on the definitions alone, in exact arithmetic: iteration 50 with
  HDF5 writes both fields, iteration 1 without HDF5 writes nothing.
\<close>

lemma iteration_50_example:
  "loop_body exact_ops True 50 \<lparr>t = 49 / 1000, dt = 1 / 1000, calls = []\<rparr> =
     Inr \<lparr>t = 1 / 20, dt = 1 / 1000,
          calls =
            [Assemble L1 b1, Apply bcu_inflow b1, Apply bcu_walls b1, Apply bcu_cylinder b1,
             Solve A1 u_cur b1 (Some ''bicgstab'') (Some ''ilu''),
             Assemble L2 b2, Apply bcp_outflow b2,
             Solve A2 p_cur b2 (Some ''bicgstab'') (Some ''ilu''),
             Assemble L3 b3,
             Solve A3 u_cur b3 (Some ''cg'') (Some ''sor''),
             Print_u_max,
             XDMF_write xdmffile_u u_cur (1 / 20), XDMF_write xdmffile_p p_cur (1 / 20),
             Assign u_k u_cur, Assign p_k p_cur, Progress_update (1 / 100)]\<rparr>"
  by (simp add: loop_body_def py_mod_def out_interval_def num_steps_def emit_def bcu_def
        bcp_def exact_ops_def T_def Let_def)

lemma iteration_1_example:
  "loop_body exact_ops False 1 \<lparr>t = 0, dt = 1 / 1000, calls = []\<rparr> =
     Inr \<lparr>t = 1 / 1000, dt = 1 / 1000,
          calls =
            [Assemble L1 b1, Apply bcu_inflow b1, Apply bcu_walls b1, Apply bcu_cylinder b1,
             Solve A1 u_cur b1 (Some ''bicgstab'') (Some ''ilu''),
             Assemble L2 b2, Apply bcp_outflow b2,
             Solve A2 p_cur b2 (Some ''bicgstab'') (Some ''ilu''),
             Assemble L3 b3,
             Solve A3 u_cur b3 (Some ''cg'') (Some ''sor''),
             Assign u_k u_cur, Assign p_k p_cur, Progress_update (1 / 5000)]\<rparr>"
proof -
  have "\<lfloor>(1::rat) / 50\<rfloor> = 0"
    by (simp add: floor_eq_iff)
  then show ?thesis
    by (simp add: loop_body_def py_mod_def out_interval_def num_steps_def emit_def bcu_def
          bcp_def exact_ops_def T_def Let_def)
qed

text \<open>
  The loop over a list that is split in two runs the first part, then the second;
  so the state after \<open>n\<close> iterations is computed step by step, and the run passes
  through it.
\<close>

lemma time_loop_append:
  "time_loop ops hdf5 (xs @ ys) st =
     (case time_loop ops hdf5 xs st of Inl e \<Rightarrow> Inl e | Inr s \<Rightarrow> time_loop ops hdf5 ys s)"
  by (induction xs arbitrary: st) (auto split: sum.splits)

lemma upto_int_Suc: "[1..int (Suc n)] = [1..int n] @ [int (Suc n)]"
  using upto_rec2 [of 1 "int (Suc n)"] by simp

lemma sum_copies_0: "sum_copies ops 0 d = fl ops 0"
  by (simp add: sum_copies_def)

lemma sum_copies_Suc: "sum_copies ops (Suc n) d = fadd ops (sum_copies ops n d) d"
proof -
  have "replicate (Suc n) d = replicate n d @ [d]"
    by (simp add: replicate_append_same)
  then show ?thesis
    by (simp only: sum_copies_def foldl_append foldl.simps)
qed

lemma state_after_eq:
  "state_after ops hdf5 n =
     Inr \<lparr>t = sum_copies ops n (dt (initial ops hdf5)),
          dt = dt (initial ops hdf5),
          calls = calls (initial ops hdf5) @
            concat (map (\<lambda>k. body_calls ops hdf5 k (sum_copies ops (nat k) (dt (initial ops hdf5))))
                        [1..int n])\<rparr>"
proof (induction n)
  case 0
  show ?case
    by (simp add: state_after_def sum_copies_0 initial_def)
next
  case (Suc n)
  have "state_after ops hdf5 (Suc n) =
          (case state_after ops hdf5 n of
             Inl e \<Rightarrow> Inl e
           | Inr s \<Rightarrow> time_loop ops hdf5 [int (Suc n)] s)"
    unfolding state_after_def upto_int_Suc by (rule time_loop_append)
  moreover have "nat (int (Suc n)) = Suc n"
    by simp
  ultimately show ?case
    by (simp only: Suc.IH sum.case time_loop.simps loop_body_eq upto_int_Suc sum_copies_Suc
          map_append concat_append list.map concat.simps append_Nil2 append_assoc)
      simp
qed

lemma run_passes_through:
  assumes "n \<le> 5000"
  shows "time_loop ops hdf5 [1..num_steps] (initial ops hdf5) =
           (case state_after ops hdf5 n of
              Inl e \<Rightarrow> Inl e
            | Inr s \<Rightarrow> time_loop ops hdf5 [int n + 1..num_steps] s)"
proof -
  have "[1..num_steps] = [1..int n] @ [int n + 1..num_steps]"
    using assms upto_split2 [of 1 "int n" num_steps]
    by (cases "n = 0") (simp_all add: num_steps_def)
  then show ?thesis
    by (simp add: state_after_def time_loop_append)
qed

lemma notebook_eq:
  "notebook ops hdf5 =
     Inr \<lparr>t = sum_copies ops 5000 (dt (initial ops hdf5)),
          dt = dt (initial ops hdf5),
          calls = calls (initial ops hdf5) @
            concat (map (\<lambda>k. body_calls ops hdf5 k (sum_copies ops (nat k) (dt (initial ops hdf5))))
                        [1..5000]) @ [Interactive]\<rparr>"
proof -
  have "time_loop ops hdf5 [1..num_steps] (initial ops hdf5) = state_after ops hdf5 5000"
    by (simp add: state_after_def num_steps_def)
  then show ?thesis
    by (simp add: notebook_def state_after_eq emit_def)
qed

lemma iteration_calls_eq:
  "iteration_calls ops hdf5 k st = body_calls ops hdf5 k (fadd ops (t st) (dt st))"
  by (simp add: iteration_calls_def loop_body_eq)

lemma loop_body_appends:
  "loop_body ops hdf5 k st =
     Inr (st\<lparr>t := fadd ops (t st) (dt st), calls := calls st @ iteration_calls ops hdf5 k st\<rparr>)"
  by (simp add: loop_body_eq iteration_calls_eq)

lemma initial_calls:
  "calls (initial ops hdf5) =
     [Assemble a1 A1, Apply bcu_inflow A1, Apply bcu_walls A1, Apply bcu_cylinder A1,
      Assemble a2 A2, Apply bcp_outflow A2, Assemble a3 A3] @
     (if hdf5
      then [XDMFFile xdmffile_u ''navier_stokes_cylinder/velocity.xdmf'',
            XDMFFile xdmffile_p ''navier_stokes_cylinder/pressure.xdmf'',
            TimeSeries timeseries_u ''navier_stokes_cylinder/velocity_series'',
            TimeSeries timeseries_p ''navier_stokes_cylinder/pressure_series'']
      else [File vtkfile_u ''navier_stokes_cylinder/velocity.pvd'',
            File vtkfile_p ''navier_stokes_cylinder/pressure.pvd''])"
  by (simp add: initial_def cell_8_def cell_10_def cell_11_def bcu_def bcp_def)

text \<open>
  Projections and filters go through the concatenation of the iterations.
\<close>

lemma concat_const: "concat (map (\<lambda>k. c) xs) = concat (replicate (length xs) c)"
  by (simp add: map_replicate_const)

lemma concat_Nil_const: "concat (map (\<lambda>k. []) xs) = []"
  by simp

lemma length_steps: "length [1..5000::int] = 5000"
  by simp

lemma concat_map_bodies:
  "concat (map f (concat (map (\<lambda>k. body_calls ops hdf5 k (g k)) ks))) =
     concat (map (\<lambda>k. concat (map f (body_calls ops hdf5 k (g k)))) ks)"
  by (induction ks) simp_all

lemma filter_bodies:
  "filter p (concat (map (\<lambda>k. body_calls ops hdf5 k (g k)) ks)) =
     concat (map (\<lambda>k. filter p (body_calls ops hdf5 k (g k))) ks)"
  by (induction ks) simp_all

lemma map_snd_replicate_concat:
  "map f (concat (replicate n xs)) = concat (replicate n (map f xs))"
  by (induction n) simp_all

subsection \<open>The three solves of a time step\<close>

lemma solve_systems_body:
  "concat (map solve_system (body_calls ops hdf5 k tm)) =
     [(A1, b1, u_cur), (A2, b2, p_cur), (A3, b3, u_cur)]"
  by (auto simp: body_calls_def)

lemma solve_systems_initial: "concat (map solve_system (calls (initial ops hdf5))) = []"
  by (simp add: initial_def cell_8_def cell_10_def cell_11_def bcu_def bcp_def)

text \<open>
  Claim C1. Every iteration of the time loop performs exactly three linear solves, in
  this order: the tentative velocity step (matrix \<open>A1\<close>, right-hand side \<open>b1\<close>, writing
  \<open>u_\<close>), the pressure correction step (\<open>A2\<close>, \<open>b2\<close>, writing \<open>p_\<close>) and the velocity
  correction step (\<open>A3\<close>, \<open>b3\<close>, writing \<open>u_\<close> again). This holds for the calls of one
  iteration from any state, and the whole run solves these three systems 5000 times
  over and nothing else.
\<close>

theorem three_solves_in_order:
  "solve_systems (iteration_calls ops hdf5 k st) =
     [(A1, b1, u_cur), (A2, b2, p_cur), (A3, b3, u_cur)] \<and>
   (\<exists>s. loop_body ops hdf5 k st = Inr s \<and>
        solve_systems (calls s) =
          solve_systems (calls st) @ [(A1, b1, u_cur), (A2, b2, p_cur), (A3, b3, u_cur)]) \<and>
   (\<exists>s. notebook ops hdf5 = Inr s \<and>
        solve_systems (calls s) =
          concat (replicate (nat num_steps) [(A1, b1, u_cur), (A2, b2, p_cur), (A3, b3, u_cur)]))"
proof (intro conjI)
  show one: "solve_systems (iteration_calls ops hdf5 k st) =
      [(A1, b1, u_cur), (A2, b2, p_cur), (A3, b3, u_cur)]"
    by (simp add: solve_systems_def iteration_calls_eq solve_systems_body)
  show "\<exists>s. loop_body ops hdf5 k st = Inr s \<and>
        solve_systems (calls s) =
          solve_systems (calls st) @ [(A1, b1, u_cur), (A2, b2, p_cur), (A3, b3, u_cur)]"
    using one by (simp add: loop_body_appends solve_systems_def)
  show "\<exists>s. notebook ops hdf5 = Inr s \<and>
        solve_systems (calls s) =
          concat (replicate (nat num_steps) [(A1, b1, u_cur), (A2, b2, p_cur), (A3, b3, u_cur)])"
    by (simp add: notebook_eq solve_systems_def solve_systems_initial concat_map_bodies
          solve_systems_body concat_const num_steps_def)
qed

subsection \<open>What a time step assembles\<close>

lemma assemblies_body:
  "concat (map assembly (body_calls ops hdf5 k tm)) = [(L1, b1), (L2, b2), (L3, b3)]"
  by (auto simp: body_calls_def)

lemma assemblies_initial:
  "concat (map assembly (calls (initial ops hdf5))) = [(a1, A1), (a2, A2), (a3, A3)]"
  by (simp add: initial_calls)

lemma assemble_or_solve_body:
  "filter assemble_or_solve (body_calls ops hdf5 k tm) =
     [Assemble L1 b1, Solve A1 u_cur b1 (Some ''bicgstab'') (Some ''ilu''),
      Assemble L2 b2, Solve A2 p_cur b2 (Some ''bicgstab'') (Some ''ilu''),
      Assemble L3 b3, Solve A3 u_cur b3 (Some ''cg'') (Some ''sor'')]"
  by (auto simp: body_calls_def)

text \<open>
  Claim C2, as stated: in every time step the three linear variational sub-problems
  are assembled within that time step. In the first iteration of the run this is not
  so: the iteration assembles the linear forms only, and no bilinear form.
\<close>

theorem subproblems_not_assembled_in_step:
  "\<not> list_all (assembled_within (iteration_calls exact_ops True 1 (initial exact_ops True)))
       subproblems"
  by (simp add: iteration_calls_eq assembled_within_def assemblies_def assemblies_body
        subproblems_def)

text \<open>
  Claim C2, amended. In every time step the right-hand sides of the three sub-problems
  are assembled within that time step, \<open>b1\<close> from \<open>L1\<close>, \<open>b2\<close> from \<open>L2\<close> and \<open>b3\<close> from
  \<open>L3\<close>, each just before the solve that uses it, and nothing else is assembled in a
  time step. The matrices \<open>A1\<close>, \<open>A2\<close>, \<open>A3\<close> of the sub-problems are assembled from
  \<open>a1\<close>, \<open>a2\<close>, \<open>a3\<close> before the loop, once.
\<close>

theorem right_hand_sides_assembled_in_step:
  "assemblies (iteration_calls ops hdf5 k st) = [(L1, b1), (L2, b2), (L3, b3)] \<and>
   filter assemble_or_solve (iteration_calls ops hdf5 k st) =
     [Assemble L1 b1, Solve A1 u_cur b1 (Some ''bicgstab'') (Some ''ilu''),
      Assemble L2 b2, Solve A2 p_cur b2 (Some ''bicgstab'') (Some ''ilu''),
      Assemble L3 b3, Solve A3 u_cur b3 (Some ''cg'') (Some ''sor'')] \<and>
   assemblies (calls (initial ops hdf5)) = [(a1, A1), (a2, A2), (a3, A3)] \<and>
   (\<exists>s. notebook ops hdf5 = Inr s \<and>
        assemblies (calls s) =
          [(a1, A1), (a2, A2), (a3, A3)] @
          concat (replicate (nat num_steps) [(L1, b1), (L2, b2), (L3, b3)]))"
proof (intro conjI)
  show "assemblies (iteration_calls ops hdf5 k st) = [(L1, b1), (L2, b2), (L3, b3)]"
    by (simp add: assemblies_def iteration_calls_eq assemblies_body)
  show "filter assemble_or_solve (iteration_calls ops hdf5 k st) =
     [Assemble L1 b1, Solve A1 u_cur b1 (Some ''bicgstab'') (Some ''ilu''),
      Assemble L2 b2, Solve A2 p_cur b2 (Some ''bicgstab'') (Some ''ilu''),
      Assemble L3 b3, Solve A3 u_cur b3 (Some ''cg'') (Some ''sor'')]"
    by (simp only: iteration_calls_eq assemble_or_solve_body)
  show "assemblies (calls (initial ops hdf5)) = [(a1, A1), (a2, A2), (a3, A3)]"
    by (simp only: assemblies_def assemblies_initial)
  show "\<exists>s. notebook ops hdf5 = Inr s \<and>
        assemblies (calls s) =
          [(a1, A1), (a2, A2), (a3, A3)] @
          concat (replicate (nat num_steps) [(L1, b1), (L2, b2), (L3, b3)])"
    by (simp add: notebook_eq assemblies_def assemblies_initial concat_map_bodies
          assemblies_body concat_const num_steps_def)
qed

subsection \<open>The domain\<close>

text \<open>
  Claim C3. The computational domain is the set difference of exactly two primitives,
  the rectangle with corners \<open>(0, 0)\<close> and \<open>(2.2, 0.41)\<close> minus the circle with centre
  \<open>(0.2, 0.2)\<close> and radius \<open>0.05\<close> (drawn with 16 segments); it holds one difference
  and no union or intersection.
\<close>

theorem domain_is_rectangle_minus_circle:
  "domain = CSGDifference (Rectangle (Point 0 0) (Point (22 / 10) (41 / 100)))
                          (Circle (Point (2 / 10) (2 / 10)) (5 / 100) 16) \<and>
   primitives domain = [Rectangle (Point 0 0) (Point (22 / 10) (41 / 100)),
                        Circle (Point (2 / 10) (2 / 10)) (5 / 100) 16] \<and>
   differences domain = 1 \<and> unions domain = 0 \<and> intersections domain = 0"
  by (simp add: domain_def channel_def cylinder_def)

subsection \<open>The time step\<close>

text \<open>
  Claim C4. The loop is fixed-step: \<open>dt\<close> is computed once, as \<open>T / num_steps\<close>
  (\<open>5.0 / 5000\<close>), before the loop, where \<open>t\<close> is 0; no iteration changes \<open>dt\<close>, every
  iteration adds this \<open>dt\<close> to \<open>t\<close>; so after \<open>n\<close> iterations \<open>t\<close> is the sum of \<open>n\<close>
  copies of \<open>dt\<close>, and at the end of the run that of 5000 copies.
\<close>

theorem fixed_time_step:
  "dt (initial ops hdf5) = fdiv ops (fl ops 5.0) (fl ops 5000) \<and>
   t (initial ops hdf5) = fl ops 0 \<and>
   (\<exists>s. loop_body ops hdf5 k st = Inr s \<and> dt s = dt st \<and> t s = fadd ops (t st) (dt st)) \<and>
   (\<exists>s. state_after ops hdf5 n = Inr s \<and>
        dt s = dt (initial ops hdf5) \<and>
        t s = sum_copies ops n (dt (initial ops hdf5))) \<and>
   (\<exists>s. notebook ops hdf5 = Inr s \<and>
        dt s = dt (initial ops hdf5) \<and>
        t s = sum_copies ops (nat num_steps) (dt (initial ops hdf5)))"
proof (intro conjI)
  show "dt (initial ops hdf5) = fdiv ops (fl ops 5.0) (fl ops 5000)"
    by (simp add: initial_def T_def num_steps_def)
  show "t (initial ops hdf5) = fl ops 0"
    by (simp add: initial_def)
  show "\<exists>s. loop_body ops hdf5 k st = Inr s \<and> dt s = dt st \<and> t s = fadd ops (t st) (dt st)"
    by (simp add: loop_body_eq)
  show "\<exists>s. state_after ops hdf5 n = Inr s \<and>
        dt s = dt (initial ops hdf5) \<and>
        t s = sum_copies ops n (dt (initial ops hdf5))"
    by (simp add: state_after_eq)
  show "\<exists>s. notebook ops hdf5 = Inr s \<and>
        dt s = dt (initial ops hdf5) \<and>
        t s = sum_copies ops (nat num_steps) (dt (initial ops hdf5))"
    by (simp add: notebook_eq num_steps_def)
qed

subsection \<open>The solvers\<close>

lemma solver_choices_body:
  "concat (map solver_choice (body_calls ops hdf5 k tm)) =
     [(A1, Some ''bicgstab'', Some ''ilu''), (A2, Some ''bicgstab'', Some ''ilu''),
      (A3, Some ''cg'', Some ''sor'')]"
  by (auto simp: body_calls_def)

lemma solver_choices_initial: "concat (map solver_choice (calls (initial ops hdf5))) = []"
  by (simp add: initial_calls)

text \<open>
  Claim C5. Each of the three solves of a time step names its method and its
  preconditioner, so none falls back to the default direct solver: \<open>bicgstab\<close> with
  \<open>ilu\<close> for the tentative velocity and the pressure correction, \<open>cg\<close> with \<open>sor\<close> for the
  velocity correction; the choice is the same in all 5000 iterations.
\<close>

theorem krylov_solvers_chosen:
  "solver_choices (iteration_calls ops hdf5 k st) =
     [(A1, Some ''bicgstab'', Some ''ilu''), (A2, Some ''bicgstab'', Some ''ilu''),
      (A3, Some ''cg'', Some ''sor'')] \<and>
   (\<exists>s. notebook ops hdf5 = Inr s \<and>
        solver_choices (calls s) =
          concat (replicate (nat num_steps)
            [(A1, Some ''bicgstab'', Some ''ilu''), (A2, Some ''bicgstab'', Some ''ilu''),
             (A3, Some ''cg'', Some ''sor'')]))"
proof (intro conjI)
  show "solver_choices (iteration_calls ops hdf5 k st) =
     [(A1, Some ''bicgstab'', Some ''ilu''), (A2, Some ''bicgstab'', Some ''ilu''),
      (A3, Some ''cg'', Some ''sor'')]"
    by (simp only: solver_choices_def iteration_calls_eq solver_choices_body)
  show "\<exists>s. notebook ops hdf5 = Inr s \<and>
        solver_choices (calls s) =
          concat (replicate (nat num_steps)
            [(A1, Some ''bicgstab'', Some ''ilu''), (A2, Some ''bicgstab'', Some ''ilu''),
             (A3, Some ''cg'', Some ''sor'')])"
    by (simp add: notebook_eq solver_choices_def solver_choices_initial concat_map_bodies
          solver_choices_body concat_const num_steps_def)
qed

subsection \<open>Output\<close>

lemma field_writes_body:
  "concat (map field_write (body_calls ops hdf5 k tm)) =
     (if 50 dvd k \<or> k = 5000
      then [(if hdf5 then xdmffile_u else vtkfile_u, u_cur, tm),
            (if hdf5 then xdmffile_p else vtkfile_p, p_cur, tm)]
      else [])"
  by (auto simp: body_calls_def)

lemma field_writes_initial: "concat (map field_write (calls (initial ops hdf5))) = []"
  by (simp add: initial_calls)

lemma file_changes_body:
  "filter (\<lambda>c. set (modifies c) \<inter> set [xdmffile_u, xdmffile_p, vtkfile_u, vtkfile_p] \<noteq> {})
     (body_calls ops hdf5 k tm) =
     (if 50 dvd k \<or> k = 5000
      then (if hdf5
            then [XDMF_write xdmffile_u u_cur tm, XDMF_write xdmffile_p p_cur tm]
            else [VTK_write vtkfile_u u_cur tm, VTK_write vtkfile_p p_cur tm])
      else [])"
  by (auto simp: body_calls_def)

text \<open>
  Claim C6. The output interval \<open>num_steps / 100\<close> is 50. Iteration \<open>k\<close> writes to the
  visualization files exactly when \<open>k\<close> is a multiple of the interval or \<open>k\<close> is
  \<open>num_steps\<close>; it then writes the velocity \<open>u_\<close> and the pressure \<open>p_\<close>, in this order,
  each with the current time \<open>t\<close>, and otherwise it changes no file. Over the run,
  for \<open>k\<close> from 1 to \<open>num_steps\<close>, these are all the field writes, the time of
  iteration \<open>k\<close> being the sum of \<open>k\<close> copies of \<open>dt\<close>.
\<close>

theorem output_every_interval:
  "out_interval = 50 \<and>
   (\<exists>s. loop_body ops hdf5 k st = Inr s \<and>
        field_writes (calls s) =
          field_writes (calls st) @
          (if 50 dvd k \<or> k = num_steps
           then [(if hdf5 then xdmffile_u else vtkfile_u, u_cur, t s),
                 (if hdf5 then xdmffile_p else vtkfile_p, p_cur, t s)]
           else [])) \<and>
   changes_to [xdmffile_u, xdmffile_p, vtkfile_u, vtkfile_p] (iteration_calls ops hdf5 k st) =
     (if 50 dvd k \<or> k = num_steps
      then (if hdf5
            then [XDMF_write xdmffile_u u_cur (fadd ops (t st) (dt st)),
                  XDMF_write xdmffile_p p_cur (fadd ops (t st) (dt st))]
            else [VTK_write vtkfile_u u_cur (fadd ops (t st) (dt st)),
                  VTK_write vtkfile_p p_cur (fadd ops (t st) (dt st))])
      else []) \<and>
   (\<exists>s. notebook ops hdf5 = Inr s \<and>
        field_writes (calls s) =
          concat (map (\<lambda>k. if 50 dvd k \<or> k = num_steps
                            then [(if hdf5 then xdmffile_u else vtkfile_u, u_cur,
                                   sum_copies ops (nat k) (dt (initial ops hdf5))),
                                  (if hdf5 then xdmffile_p else vtkfile_p, p_cur,
                                   sum_copies ops (nat k) (dt (initial ops hdf5)))]
                            else [])
                      [1..num_steps]))"
proof (intro conjI)
  show "out_interval = 50"
    by (rule out_interval_50)
  show "\<exists>s. loop_body ops hdf5 k st = Inr s \<and>
        field_writes (calls s) =
          field_writes (calls st) @
          (if 50 dvd k \<or> k = num_steps
           then [(if hdf5 then xdmffile_u else vtkfile_u, u_cur, t s),
                 (if hdf5 then xdmffile_p else vtkfile_p, p_cur, t s)]
           else [])"
    by (simp add: loop_body_eq field_writes_def field_writes_body num_steps_def)
  show "changes_to [xdmffile_u, xdmffile_p, vtkfile_u, vtkfile_p] (iteration_calls ops hdf5 k st) =
     (if 50 dvd k \<or> k = num_steps
      then (if hdf5
            then [XDMF_write xdmffile_u u_cur (fadd ops (t st) (dt st)),
                  XDMF_write xdmffile_p p_cur (fadd ops (t st) (dt st))]
            else [VTK_write vtkfile_u u_cur (fadd ops (t st) (dt st)),
                  VTK_write vtkfile_p p_cur (fadd ops (t st) (dt st))])
      else [])"
    by (simp only: changes_to_def iteration_calls_eq file_changes_body num_steps_def)
  show "\<exists>s. notebook ops hdf5 = Inr s \<and>
        field_writes (calls s) =
          concat (map (\<lambda>k. if 50 dvd k \<or> k = num_steps
                            then [(if hdf5 then xdmffile_u else vtkfile_u, u_cur,
                                   sum_copies ops (nat k) (dt (initial ops hdf5))),
                                  (if hdf5 then xdmffile_p else vtkfile_p, p_cur,
                                   sum_copies ops (nat k) (dt (initial ops hdf5)))]
                            else [])
                      [1..num_steps])"
    by (simp add: notebook_eq field_writes_def field_writes_initial concat_map_bodies
          field_writes_body num_steps_def)
qed

subsection \<open>Boundary conditions\<close>

lemma about_b1_body:
  "filter (\<lambda>c. set (mentions c) \<inter> set [b1] \<noteq> {}) (body_calls ops hdf5 k tm) =
     [Assemble L1 b1, Apply bcu_inflow b1, Apply bcu_walls b1, Apply bcu_cylinder b1,
      Solve A1 u_cur b1 (Some ''bicgstab'') (Some ''ilu'')]"
  by (auto simp: body_calls_def)

lemma about_b2_body:
  "filter (\<lambda>c. set (mentions c) \<inter> set [b2] \<noteq> {}) (body_calls ops hdf5 k tm) =
     [Assemble L2 b2, Apply bcp_outflow b2,
      Solve A2 p_cur b2 (Some ''bicgstab'') (Some ''ilu'')]"
  by (auto simp: body_calls_def)

lemma bc_applications_body:
  "concat (map bc_application (body_calls ops hdf5 k tm)) =
     [(bcu_inflow, b1), (bcu_walls, b1), (bcu_cylinder, b1), (bcp_outflow, b2)]"
  by (auto simp: body_calls_def)

lemma bc_applications_initial:
  "concat (map bc_application (calls (initial ops hdf5))) =
     [(bcu_inflow, A1), (bcu_walls, A1), (bcu_cylinder, A1), (bcp_outflow, A2)]"
  by (simp add: initial_calls)

lemma about_b1_initial:
  "filter (\<lambda>c. set (mentions c) \<inter> set [b1] \<noteq> {}) (calls (initial ops hdf5)) = []"
  by (simp add: initial_calls)

lemma about_b2_initial:
  "filter (\<lambda>c. set (mentions c) \<inter> set [b2] \<noteq> {}) (calls (initial ops hdf5)) = []"
  by (simp add: initial_calls)

text \<open>
  Claim C7. The boundary conditions are three Dirichlet conditions on the velocity
  space \<open>V\<close>, in \<open>bcu\<close>: the inflow profile \<open>(4.0*1.5*x[1]*(0.41 - x[1]) / pow(0.41, 2), 0)\<close>
  on the inflow boundary, zero on the walls and zero on the cylinder; and one on the
  pressure space \<open>Q\<close>, in \<open>bcp\<close>: zero on the outflow boundary. In every time step the
  calls on \<open>b1\<close> are its assembly, then each condition of \<open>bcu\<close> applied to it, then the
  step-1 solve; the calls on \<open>b2\<close> are its assembly, then each condition of \<open>bcp\<close>
  applied to it, then the step-2 solve; and no other condition is applied in a step.
  This holds for the calls of one iteration, for what the loop body adds to the trace of
  any state, and for the whole run, where these calls come 5000 times over, after the
  applications of \<open>bcu\<close> to \<open>A1\<close> and of \<open>bcp\<close> to \<open>A2\<close> before the loop.
\<close>

theorem boundary_conditions_applied:
  "bcu = [DirichletBC V (Expression [''4.0*1.5*x[1]*(0.41 - x[1]) / pow(0.41, 2)'', ''0''] 2)
            ''near(x[0], 0)'',
          DirichletBC V (Constant (Vector [0, 0])) ''near(x[1], 0) || near(x[1], 0.41)'',
          DirichletBC V (Constant (Vector [0, 0]))
            ''on_boundary && x[0]>0.1 && x[0]<0.3 && x[1]>0.1 && x[1]<0.3''] \<and>
   bcp = [DirichletBC Q (Constant (Scalar 0)) ''near(x[0], 2.2)''] \<and>
   about [b1] (iteration_calls ops hdf5 k st) =
     [Assemble L1 b1] @ map (\<lambda>bc. Apply bc b1) bcu @
     [Solve A1 u_cur b1 (Some ''bicgstab'') (Some ''ilu'')] \<and>
   about [b2] (iteration_calls ops hdf5 k st) =
     [Assemble L2 b2] @ map (\<lambda>bc. Apply bc b2) bcp @
     [Solve A2 p_cur b2 (Some ''bicgstab'') (Some ''ilu'')] \<and>
   bc_applications (iteration_calls ops hdf5 k st) =
     map (\<lambda>bc. (bc, b1)) bcu @ map (\<lambda>bc. (bc, b2)) bcp \<and>
   (\<exists>s. loop_body ops hdf5 k st = Inr s \<and>
        about [b1] (calls s) =
          about [b1] (calls st) @
          [Assemble L1 b1] @ map (\<lambda>bc. Apply bc b1) bcu @
          [Solve A1 u_cur b1 (Some ''bicgstab'') (Some ''ilu'')] \<and>
        about [b2] (calls s) =
          about [b2] (calls st) @
          [Assemble L2 b2] @ map (\<lambda>bc. Apply bc b2) bcp @
          [Solve A2 p_cur b2 (Some ''bicgstab'') (Some ''ilu'')] \<and>
        bc_applications (calls s) =
          bc_applications (calls st) @
          map (\<lambda>bc. (bc, b1)) bcu @ map (\<lambda>bc. (bc, b2)) bcp) \<and>
   (\<exists>s. notebook ops hdf5 = Inr s \<and>
        about [b1] (calls s) =
          concat (replicate (nat num_steps)
            ([Assemble L1 b1] @ map (\<lambda>bc. Apply bc b1) bcu @
             [Solve A1 u_cur b1 (Some ''bicgstab'') (Some ''ilu'')])) \<and>
        about [b2] (calls s) =
          concat (replicate (nat num_steps)
            ([Assemble L2 b2] @ map (\<lambda>bc. Apply bc b2) bcp @
             [Solve A2 p_cur b2 (Some ''bicgstab'') (Some ''ilu'')])) \<and>
        bc_applications (calls s) =
          map (\<lambda>bc. (bc, A1)) bcu @ map (\<lambda>bc. (bc, A2)) bcp @
          concat (replicate (nat num_steps)
            (map (\<lambda>bc. (bc, b1)) bcu @ map (\<lambda>bc. (bc, b2)) bcp)))"
proof (intro conjI)
  show "bcu = [DirichletBC V (Expression [''4.0*1.5*x[1]*(0.41 - x[1]) / pow(0.41, 2)'', ''0''] 2)
            ''near(x[0], 0)'',
          DirichletBC V (Constant (Vector [0, 0])) ''near(x[1], 0) || near(x[1], 0.41)'',
          DirichletBC V (Constant (Vector [0, 0]))
            ''on_boundary && x[0]>0.1 && x[0]<0.3 && x[1]>0.1 && x[1]<0.3'']"
    by (simp add: bcu_def bcu_inflow_def bcu_walls_def bcu_cylinder_def inflow_profile_def
          inflow_def walls_def cylinder'_def)
  show "bcp = [DirichletBC Q (Constant (Scalar 0)) ''near(x[0], 2.2)'']"
    by (simp add: bcp_def bcp_outflow_def outflow_def)
  show i1: "about [b1] (iteration_calls ops hdf5 k st) =
     [Assemble L1 b1] @ map (\<lambda>bc. Apply bc b1) bcu @
     [Solve A1 u_cur b1 (Some ''bicgstab'') (Some ''ilu'')]"
    by (simp only: about_def iteration_calls_eq about_b1_body) (simp add: bcu_def)
  show i2: "about [b2] (iteration_calls ops hdf5 k st) =
     [Assemble L2 b2] @ map (\<lambda>bc. Apply bc b2) bcp @
     [Solve A2 p_cur b2 (Some ''bicgstab'') (Some ''ilu'')]"
    by (simp only: about_def iteration_calls_eq about_b2_body) (simp add: bcp_def)
  show i3: "bc_applications (iteration_calls ops hdf5 k st) =
     map (\<lambda>bc. (bc, b1)) bcu @ map (\<lambda>bc. (bc, b2)) bcp"
    by (simp only: bc_applications_def iteration_calls_eq bc_applications_body)
       (simp add: bcu_def bcp_def)
  have s1: "about [b1] (calls st @ iteration_calls ops hdf5 k st) =
          about [b1] (calls st) @
          [Assemble L1 b1] @ map (\<lambda>bc. Apply bc b1) bcu @
          [Solve A1 u_cur b1 (Some ''bicgstab'') (Some ''ilu'')]"
    using i1 by (simp only: about_def filter_append)
  have s2: "about [b2] (calls st @ iteration_calls ops hdf5 k st) =
          about [b2] (calls st) @
          [Assemble L2 b2] @ map (\<lambda>bc. Apply bc b2) bcp @
          [Solve A2 p_cur b2 (Some ''bicgstab'') (Some ''ilu'')]"
    using i2 by (simp only: about_def filter_append)
  have s3: "bc_applications (calls st @ iteration_calls ops hdf5 k st) =
          bc_applications (calls st) @
          map (\<lambda>bc. (bc, b1)) bcu @ map (\<lambda>bc. (bc, b2)) bcp"
    using i3 by (simp only: bc_applications_def map_append concat_append)
  show "\<exists>s. loop_body ops hdf5 k st = Inr s \<and>
        about [b1] (calls s) =
          about [b1] (calls st) @
          [Assemble L1 b1] @ map (\<lambda>bc. Apply bc b1) bcu @
          [Solve A1 u_cur b1 (Some ''bicgstab'') (Some ''ilu'')] \<and>
        about [b2] (calls s) =
          about [b2] (calls st) @
          [Assemble L2 b2] @ map (\<lambda>bc. Apply bc b2) bcp @
          [Solve A2 p_cur b2 (Some ''bicgstab'') (Some ''ilu'')] \<and>
        bc_applications (calls s) =
          bc_applications (calls st) @
          map (\<lambda>bc. (bc, b1)) bcu @ map (\<lambda>bc. (bc, b2)) bcp"
    using s1 s2 s3 by (simp add: loop_body_appends)
  have r1: "about [b1] (calls (initial ops hdf5) @
          concat (map (\<lambda>k. body_calls ops hdf5 k (sum_copies ops (nat k) (dt (initial ops hdf5))))
                      [1..5000]) @ [Interactive]) =
        concat (replicate (nat num_steps)
            ([Assemble L1 b1] @ map (\<lambda>bc. Apply bc b1) bcu @
             [Solve A1 u_cur b1 (Some ''bicgstab'') (Some ''ilu'')]))"
    by (simp only: about_def filter_append filter_bodies about_b1_body about_b1_initial
          concat_const length_steps num_steps_def)
       (simp add: bcu_def)
  have r2: "about [b2] (calls (initial ops hdf5) @
          concat (map (\<lambda>k. body_calls ops hdf5 k (sum_copies ops (nat k) (dt (initial ops hdf5))))
                      [1..5000]) @ [Interactive]) =
        concat (replicate (nat num_steps)
            ([Assemble L2 b2] @ map (\<lambda>bc. Apply bc b2) bcp @
             [Solve A2 p_cur b2 (Some ''bicgstab'') (Some ''ilu'')]))"
    by (simp only: about_def filter_append filter_bodies about_b2_body about_b2_initial
          concat_const length_steps num_steps_def)
       (simp add: bcp_def)
  have r3: "bc_applications (calls (initial ops hdf5) @
          concat (map (\<lambda>k. body_calls ops hdf5 k (sum_copies ops (nat k) (dt (initial ops hdf5))))
                      [1..5000]) @ [Interactive]) =
        map (\<lambda>bc. (bc, A1)) bcu @ map (\<lambda>bc. (bc, A2)) bcp @
          concat (replicate (nat num_steps)
            (map (\<lambda>bc. (bc, b1)) bcu @ map (\<lambda>bc. (bc, b2)) bcp))"
    by (simp only: bc_applications_def map_append concat_append concat_map_bodies
          bc_applications_body bc_applications_initial concat_const length_steps num_steps_def)
       (simp add: bcu_def bcp_def)
  show "\<exists>s. notebook ops hdf5 = Inr s \<and>
        about [b1] (calls s) =
          concat (replicate (nat num_steps)
            ([Assemble L1 b1] @ map (\<lambda>bc. Apply bc b1) bcu @
             [Solve A1 u_cur b1 (Some ''bicgstab'') (Some ''ilu'')])) \<and>
        about [b2] (calls s) =
          concat (replicate (nat num_steps)
            ([Assemble L2 b2] @ map (\<lambda>bc. Apply bc b2) bcp @
             [Solve A2 p_cur b2 (Some ''bicgstab'') (Some ''ilu'')])) \<and>
        bc_applications (calls s) =
          map (\<lambda>bc. (bc, A1)) bcu @ map (\<lambda>bc. (bc, A2)) bcp @
          concat (replicate (nat num_steps)
            (map (\<lambda>bc. (bc, b1)) bcu @ map (\<lambda>bc. (bc, b2)) bcp))"
    using r1 r2 r3 by (simp only: notebook_eq) simp
qed

subsection \<open>The matrices\<close>

lemma matrix_changes_body:
  "filter (\<lambda>c. set (modifies c) \<inter> set [A1, A2, A3] \<noteq> {}) (body_calls ops hdf5 k tm) = []"
  by (auto simp: body_calls_def)

lemma matrix_changes_initial:
  "filter (\<lambda>c. set (modifies c) \<inter> set [A1, A2, A3] \<noteq> {}) (calls (initial ops hdf5)) =
     [Assemble a1 A1, Apply bcu_inflow A1, Apply bcu_walls A1, Apply bcu_cylinder A1,
      Assemble a2 A2, Apply bcp_outflow A2, Assemble a3 A3]"
  by (simp add: initial_calls)

lemma vector_changes_body:
  "filter (\<lambda>c. set (modifies c) \<inter> set [b1, b2, b3] \<noteq> {}) (body_calls ops hdf5 k tm) =
     [Assemble L1 b1, Apply bcu_inflow b1, Apply bcu_walls b1, Apply bcu_cylinder b1,
      Assemble L2 b2, Apply bcp_outflow b2, Assemble L3 b3]"
  by (auto simp: body_calls_def)

text \<open>
  Claim C8. The matrices \<open>A1\<close>, \<open>A2\<close>, \<open>A3\<close> are each assembled once before the loop,
  the conditions of \<open>bcu\<close> applied to \<open>A1\<close> and that of \<open>bcp\<close> to \<open>A2\<close> there. No call
  of an iteration changes a matrix: the calls that change one over the whole run are
  those made before the loop. Each iteration solves with \<open>A1\<close>, \<open>A2\<close>, \<open>A3\<close>, and
  rebuilds only the right-hand sides \<open>b1\<close>, \<open>b2\<close>, \<open>b3\<close>.
\<close>

theorem matrices_assembled_once:
  "changes_to [A1, A2, A3] (calls (initial ops hdf5)) =
     [Assemble a1 A1] @ map (\<lambda>bc. Apply bc A1) bcu @
     [Assemble a2 A2] @ map (\<lambda>bc. Apply bc A2) bcp @
     [Assemble a3 A3] \<and>
   changes_to [A1, A2, A3] (iteration_calls ops hdf5 k st) = [] \<and>
   (\<exists>s. loop_body ops hdf5 k st = Inr s \<and>
        changes_to [A1, A2, A3] (calls s) = changes_to [A1, A2, A3] (calls st)) \<and>
   (\<exists>s. notebook ops hdf5 = Inr s \<and>
        changes_to [A1, A2, A3] (calls s) = changes_to [A1, A2, A3] (calls (initial ops hdf5))) \<and>
   map fst (solve_systems (iteration_calls ops hdf5 k st)) = [A1, A2, A3] \<and>
   changes_to [b1, b2, b3] (iteration_calls ops hdf5 k st) =
     [Assemble L1 b1] @ map (\<lambda>bc. Apply bc b1) bcu @
     [Assemble L2 b2] @ map (\<lambda>bc. Apply bc b2) bcp @
     [Assemble L3 b3]"
proof (intro conjI)
  show "changes_to [A1, A2, A3] (calls (initial ops hdf5)) =
     [Assemble a1 A1] @ map (\<lambda>bc. Apply bc A1) bcu @
     [Assemble a2 A2] @ map (\<lambda>bc. Apply bc A2) bcp @
     [Assemble a3 A3]"
    by (simp only: changes_to_def matrix_changes_initial) (simp add: bcu_def bcp_def)
  show none: "changes_to [A1, A2, A3] (iteration_calls ops hdf5 k st) = []"
    by (simp only: changes_to_def iteration_calls_eq matrix_changes_body)
  show "\<exists>s. loop_body ops hdf5 k st = Inr s \<and>
        changes_to [A1, A2, A3] (calls s) = changes_to [A1, A2, A3] (calls st)"
    using none by (simp add: loop_body_appends changes_to_def)
  have "changes_to [A1, A2, A3] (calls (initial ops hdf5) @
          concat (map (\<lambda>k. body_calls ops hdf5 k (sum_copies ops (nat k) (dt (initial ops hdf5))))
                      [1..5000]) @ [Interactive]) =
        changes_to [A1, A2, A3] (calls (initial ops hdf5))"
    by (simp only: changes_to_def filter_append filter_bodies matrix_changes_body
          concat_Nil_const)
       simp
  then show "\<exists>s. notebook ops hdf5 = Inr s \<and>
        changes_to [A1, A2, A3] (calls s) = changes_to [A1, A2, A3] (calls (initial ops hdf5))"
    by (simp add: notebook_eq)
  show "map fst (solve_systems (iteration_calls ops hdf5 k st)) = [A1, A2, A3]"
    by (simp add: solve_systems_def iteration_calls_eq solve_systems_body)
  show "changes_to [b1, b2, b3] (iteration_calls ops hdf5 k st) =
     [Assemble L1 b1] @ map (\<lambda>bc. Apply bc b1) bcu @
     [Assemble L2 b2] @ map (\<lambda>bc. Apply bc b2) bcp @
     [Assemble L3 b3]"
    by (simp only: changes_to_def iteration_calls_eq vector_changes_body)
       (simp add: bcu_def bcp_def)
qed

subsection \<open>The velocity correction step\<close>

lemma about_step3_body:
  "filter (\<lambda>c. set (mentions c) \<inter> set [A3, b3] \<noteq> {}) (body_calls ops hdf5 k tm) =
     [Assemble L3 b3, Solve A3 u_cur b3 (Some ''cg'') (Some ''sor'')]"
  by (auto simp: body_calls_def)

lemma about_step3_initial:
  "filter (\<lambda>c. set (mentions c) \<inter> set [A3, b3] \<noteq> {}) (calls (initial ops hdf5)) =
     [Assemble a3 A3]"
  by (simp add: initial_calls)

text \<open>
  Claim C9. In the velocity correction step no boundary condition is applied to the
  matrix \<open>A3\<close> or to the right-hand side \<open>b3\<close>. In an iteration the calls that name
  \<open>A3\<close> or \<open>b3\<close> are the assembly of \<open>b3\<close> and, next, the step-3 solve; over the run
  they are the assembly of \<open>A3\<close> before the loop and these two, 5000 times; and the
  targets of all applications of boundary conditions are \<open>A1\<close> and \<open>A2\<close> before the
  loop and \<open>b1\<close> and \<open>b2\<close> in each iteration, as in steps 1 and 2.
\<close>

theorem no_boundary_condition_in_step_3:
  "about [A3, b3] (iteration_calls ops hdf5 k st) =
     [Assemble L3 b3, Solve A3 u_cur b3 (Some ''cg'') (Some ''sor'')] \<and>
   bc_applications (about [A3, b3] (iteration_calls ops hdf5 k st)) = [] \<and>
   map snd (bc_applications (iteration_calls ops hdf5 k st)) = [b1, b1, b1, b2] \<and>
   (\<exists>s. notebook ops hdf5 = Inr s \<and>
        about [A3, b3] (calls s) =
          Assemble a3 A3 #
          concat (replicate (nat num_steps)
            [Assemble L3 b3, Solve A3 u_cur b3 (Some ''cg'') (Some ''sor'')]) \<and>
        map snd (bc_applications (calls s)) =
          [A1, A1, A1, A2] @ concat (replicate (nat num_steps) [b1, b1, b1, b2]))"
proof (intro conjI)
  show one: "about [A3, b3] (iteration_calls ops hdf5 k st) =
     [Assemble L3 b3, Solve A3 u_cur b3 (Some ''cg'') (Some ''sor'')]"
    by (simp only: about_def iteration_calls_eq about_step3_body)
  show "bc_applications (about [A3, b3] (iteration_calls ops hdf5 k st)) = []"
    by (simp only: one) (simp add: bc_applications_def)
  show "map snd (bc_applications (iteration_calls ops hdf5 k st)) = [b1, b1, b1, b2]"
    by (simp only: bc_applications_def iteration_calls_eq bc_applications_body) simp
  have "about [A3, b3] (calls (initial ops hdf5) @
          concat (map (\<lambda>k. body_calls ops hdf5 k (sum_copies ops (nat k) (dt (initial ops hdf5))))
                      [1..5000]) @ [Interactive]) =
        Assemble a3 A3 #
          concat (replicate (nat num_steps)
            [Assemble L3 b3, Solve A3 u_cur b3 (Some ''cg'') (Some ''sor'')])"
    by (simp only: about_def filter_append filter_bodies about_step3_body about_step3_initial
          concat_const length_steps num_steps_def)
       simp
  moreover have "map snd (bc_applications (calls (initial ops hdf5) @
          concat (map (\<lambda>k. body_calls ops hdf5 k (sum_copies ops (nat k) (dt (initial ops hdf5))))
                      [1..5000]) @ [Interactive])) =
        [A1, A1, A1, A2] @ concat (replicate (nat num_steps) [b1, b1, b1, b2])"
    by (simp only: bc_applications_def map_append concat_append concat_map_bodies
          bc_applications_body bc_applications_initial concat_const length_steps num_steps_def
          map_snd_replicate_concat)
       simp
  ultimately show "\<exists>s. notebook ops hdf5 = Inr s \<and>
        about [A3, b3] (calls s) =
          Assemble a3 A3 #
          concat (replicate (nat num_steps)
            [Assemble L3 b3, Solve A3 u_cur b3 (Some ''cg'') (Some ''sor'')]) \<and>
        map snd (bc_applications (calls s)) =
          [A1, A1, A1, A2] @ concat (replicate (nat num_steps) [b1, b1, b1, b2])"
    by (simp add: notebook_eq)
qed

subsection \<open>The time series\<close>

lemma about_timeseries_body:
  "filter (\<lambda>c. set (mentions c) \<inter> set [timeseries_u, timeseries_p] \<noteq> {})
     (body_calls ops hdf5 k tm) = []"
  by (auto simp: body_calls_def)

lemma about_timeseries_initial:
  "filter (\<lambda>c. set (mentions c) \<inter> set [timeseries_u, timeseries_p] \<noteq> {})
     (calls (initial ops True)) =
     [TimeSeries timeseries_u ''navier_stokes_cylinder/velocity_series'',
      TimeSeries timeseries_p ''navier_stokes_cylinder/pressure_series'']"
  by (simp add: initial_calls)

lemma storage_changes_body:
  "filter (\<lambda>c. set (modifies c) \<inter>
                set [xdmffile_u, xdmffile_p, vtkfile_u, vtkfile_p, timeseries_u, timeseries_p]
                \<noteq> {})
     (body_calls ops True k tm) =
     (if 50 dvd k \<or> k = 5000
      then [XDMF_write xdmffile_u u_cur tm, XDMF_write xdmffile_p p_cur tm]
      else [])"
  by (auto simp: body_calls_def)

text \<open>
  Claim C10. With HDF5 support (\<open>hdf5\<close> true) the two time series \<open>timeseries_u\<close> and
  \<open>timeseries_p\<close> are created before the loop. No call of an iteration names either
  of them, so none stores a snapshot: over the whole run the only calls on them are the
  two that create them. Of the files and time series, an iteration changes the XDMF
  files only, and only when it is an output iteration.
\<close>

theorem time_series_never_stored:
  "about [timeseries_u, timeseries_p] (calls (initial ops True)) =
     [TimeSeries timeseries_u ''navier_stokes_cylinder/velocity_series'',
      TimeSeries timeseries_p ''navier_stokes_cylinder/pressure_series''] \<and>
   about [timeseries_u, timeseries_p] (iteration_calls ops True k st) = [] \<and>
   changes_to [xdmffile_u, xdmffile_p, vtkfile_u, vtkfile_p, timeseries_u, timeseries_p]
     (iteration_calls ops True k st) =
     (if 50 dvd k \<or> k = num_steps
      then [XDMF_write xdmffile_u u_cur (fadd ops (t st) (dt st)),
            XDMF_write xdmffile_p p_cur (fadd ops (t st) (dt st))]
      else []) \<and>
   (\<exists>s. notebook ops True = Inr s \<and>
        about [timeseries_u, timeseries_p] (calls s) =
          [TimeSeries timeseries_u ''navier_stokes_cylinder/velocity_series'',
           TimeSeries timeseries_p ''navier_stokes_cylinder/pressure_series''])"
proof (intro conjI)
  show "about [timeseries_u, timeseries_p] (calls (initial ops True)) =
     [TimeSeries timeseries_u ''navier_stokes_cylinder/velocity_series'',
      TimeSeries timeseries_p ''navier_stokes_cylinder/pressure_series'']"
    by (simp only: about_def about_timeseries_initial)
  show "about [timeseries_u, timeseries_p] (iteration_calls ops True k st) = []"
    by (simp only: about_def iteration_calls_eq about_timeseries_body)
  show "changes_to [xdmffile_u, xdmffile_p, vtkfile_u, vtkfile_p, timeseries_u, timeseries_p]
     (iteration_calls ops True k st) =
     (if 50 dvd k \<or> k = num_steps
      then [XDMF_write xdmffile_u u_cur (fadd ops (t st) (dt st)),
            XDMF_write xdmffile_p p_cur (fadd ops (t st) (dt st))]
      else [])"
    by (simp only: changes_to_def iteration_calls_eq storage_changes_body num_steps_def)
  have "about [timeseries_u, timeseries_p] (calls (initial ops True) @
          concat (map (\<lambda>k. body_calls ops True k (sum_copies ops (nat k) (dt (initial ops True))))
                      [1..5000]) @ [Interactive]) =
        [TimeSeries timeseries_u ''navier_stokes_cylinder/velocity_series'',
         TimeSeries timeseries_p ''navier_stokes_cylinder/pressure_series'']"
    by (simp only: about_def filter_append filter_bodies about_timeseries_body
          about_timeseries_initial concat_Nil_const)
       simp
  then show "\<exists>s. notebook ops True = Inr s \<and>
        about [timeseries_u, timeseries_p] (calls s) =
          [TimeSeries timeseries_u ''navier_stokes_cylinder/velocity_series'',
           TimeSeries timeseries_p ''navier_stokes_cylinder/pressure_series'']"
    by (simp add: notebook_eq)
qed

end
